theory Spec2Isabelle
  imports Complex_Main
begin

text \<open>
  A model of the question-answering server of \<^verbatim>\<open>server.js\<close>: the five functions of
  the pipeline (\<^verbatim>\<open>processDocument\<close>, \<^verbatim>\<open>generateEmbeddings\<close>, \<^verbatim>\<open>storeInPinecone\<close>,
  \<^verbatim>\<open>queryDocument\<close>, \<^verbatim>\<open>generateAnswer\<close>) and the handlers of the two POST routes,
  \<^verbatim>\<open>/api/index-document\<close> and \<^verbatim>\<open>/api/answer-question\<close>. The text splitter, the
  embedding model, the vector store and the language model are services outside the
  program; what they return is a parameter of the model. The stand-alone script that
  follows the server in the source, an earlier draft of the same functions without
  handlers, is not part of the server and is not modelled.
\<close>

section \<open>JavaScript values\<close>

text \<open>
  The request bodies, the metadata of a search match and the response bodies of
  \<^verbatim>\<open>server.js\<close> are JavaScript values. Strings are lists of characters, one
  character for each code unit that \<^verbatim>\<open>.length\<close> counts; numbers are the values
  they hold after parsing; an object is the list of its own properties, looked up
  by key.
\<close>

datatype json =
    JUndefined
  | JNull
  | JBool bool
  | JNum real
  | JStr string
  | JArr "json list"
  | JObj "(string \<times> json) list"

text \<open>\<^verbatim>\<open>!v\<close> is \<open>\<not> truthy v\<close>: the falsy values are undefined, null, false, 0 and the empty string.\<close>

fun truthy :: "json \<Rightarrow> bool" where
  "truthy JUndefined = False"
| "truthy JNull = False"
| "truthy (JBool b) = b"
| "truthy (JNum x) = (x \<noteq> 0)"
| "truthy (JStr s) = (s \<noteq> [])"
| "truthy (JArr vs) = True"
| "truthy (JObj ps) = True"

text \<open>\<^verbatim>\<open>typeof v === 'string'\<close>\<close>

fun isString :: "json \<Rightarrow> bool" where
  "isString (JStr s) = True"
| "isString v = False"

text \<open>
  The errors the code throws are \<^verbatim>\<open>new Error(message)\<close>. Reading a property of
  undefined or null throws a \<^verbatim>\<open>TypeError\<close>, kept here with the key that was read and
  the value it was read from; the wording of its message is the JavaScript engine's.
  The external services throw errors of their own, which are values of the same type.
\<close>

datatype error = Error string | TypeError string json

text \<open>
  \<^verbatim>\<open>const { key } = v\<close>: the property of an object, undefined when the object has
  none of that name, and a TypeError when \<open>v\<close> is undefined or null. None of the
  keys read here is a property of a boolean, a number, a string or an array.
\<close>

fun getProp :: "json \<Rightarrow> string \<Rightarrow> error + json" where
  "getProp JUndefined key = Inl (TypeError key JUndefined)"
| "getProp JNull key = Inl (TypeError key JNull)"
| "getProp (JObj ps) key = (case map_of ps key of None \<Rightarrow> Inr JUndefined | Some v \<Rightarrow> Inr v)"
| "getProp v key = Inr JUndefined"

text \<open>
  \<^verbatim>\<open>`${n}`\<close> for a number \<open>n\<close> that is an integer (an array index, a length,
  a reading of \<^verbatim>\<open>Date.now()\<close>): its decimal digits, after a minus sign when it is
  negative. (JavaScript writes integers this way below \<open>10\<^sup>2\<^sup>1\<close>.)
\<close>

definition digitChar :: "nat \<Rightarrow> char" where
  "digitChar d = ''0123456789'' ! d"

function natToString :: "nat \<Rightarrow> string" where
  "natToString n = (if n < 10 then [digitChar n] else natToString (n div 10) @ [digitChar (n mod 10)])"
  by pat_completeness auto
termination
  by (relation "measure (\<lambda>n. n)") auto

declare natToString.simps [simp del]

definition numToString :: "int \<Rightarrow> string" where
  "numToString k = (if k < 0 then CHR ''-'' # natToString (nat (- k)) else natToString (nat k))"

text \<open>\<^verbatim>\<open>xs.map((x, i) => f(x, i))\<close>\<close>

definition mapIndexed :: "('a \<Rightarrow> nat \<Rightarrow> 'b) \<Rightarrow> 'a list \<Rightarrow> 'b list" where
  "mapIndexed f xs = map (\<lambda>(i, x). f x i) (enumerate 0 xs)"

text \<open>\<^verbatim>\<open>xs.join(sep)\<close> on an array of strings\<close>

fun join :: "string \<Rightarrow> string list \<Rightarrow> string" where
  "join sep [] = []"
| "join sep [x] = x"
| "join sep (x # y # ys) = x @ sep @ join sep (y # ys)"

text \<open>\<^verbatim>\<open>xs.slice(a, b)\<close> for \<open>0 \<le> a \<le> b\<close>: the elements from index \<open>a\<close> up to, not including, \<open>b\<close>, as far as the array goes.\<close>

definition slice :: "'a list \<Rightarrow> nat \<Rightarrow> nat \<Rightarrow> 'a list" where
  "slice xs a b = take (b - a) (drop a xs)"

text \<open>\<^verbatim>\<open>v?.key\<close>: undefined when \<open>v\<close> is undefined or null, the property otherwise.\<close>

fun optProp :: "json \<Rightarrow> string \<Rightarrow> json" where
  "optProp (JObj ps) key = (case map_of ps key of None \<Rightarrow> JUndefined | Some v \<Rightarrow> v)"
| "optProp v key = JUndefined"

text \<open>The characters of a value that is a string.\<close>

fun strOf :: "json \<Rightarrow> string" where
  "strOf (JStr s) = s"
| "strOf v = []"

section \<open>The external services and the world they act on\<close>

record splitterConfig =
  chunkSize :: nat
  chunkOverlap :: nat

text \<open>A record of the vector store: \<^verbatim>\<open>{ id, values, metadata }\<close>.\<close>

record vrecord =
  rec_id :: string
  rec_values :: "real list"
  rec_metadata :: json

text \<open>A match of a similarity query, as the store returns it.\<close>

record match =
  match_id :: string
  match_score :: real
  match_metadata :: json

text \<open>
  Every call that leaves the process is written to a log, in the order the calls are
  made, so that "no call was made" is a statement about the log.
\<close>

datatype call =
    SplitText splitterConfig string
  | EmbedDocuments "string list"
  | EmbedQuery string
  | Upsert "vrecord list"
  | Query "real list" nat bool
  | GenerateContent string string

text \<open>
  The libraries and services behind the calls are not part of the program: they are
  parameters. Each may throw. \<open>newSplitter\<close> is the constructor of the text
  splitter and \<open>splitText\<close> its method; for the other clients a failure of the
  constructor counts as a failure of the call made through it. The outcome of an
  upsert may depend on what the store holds. The clock and the random generator are
  parameters too: the readings taken while the record of chunk \<open>i\<close> is built, and
  the readings at the start and at the end of a request. \<open>typeErrorText\<close> is the
  message the engine gives a TypeError, from the key and the value.
\<close>

record services =
  newSplitter :: "splitterConfig \<Rightarrow> error option"
  splitText :: "splitterConfig \<Rightarrow> string \<Rightarrow> error + string list"
  embedDocuments :: "string list \<Rightarrow> error + real list list"
  embedQuery :: "string \<Rightarrow> error + real list"
  upsert :: "vrecord list \<Rightarrow> vrecord list \<Rightarrow> error option"
  query :: "real list \<Rightarrow> nat \<Rightarrow> error + match list"
  generateContent :: "string \<Rightarrow> string \<Rightarrow> error + string"
  dateNow :: "nat \<Rightarrow> int"
  randomSuffix :: "nat \<Rightarrow> string"
  isoTimestamp :: "nat \<Rightarrow> string"
  startTime :: int
  endTime :: int
  NODE_ENV :: string
  typeErrorText :: "string \<Rightarrow> json \<Rightarrow> string"

text \<open>\<^verbatim>\<open>error.message\<close>\<close>

fun message :: "services \<Rightarrow> error \<Rightarrow> string" where
  "message sv (Error m) = m"
| "message sv (TypeError key v) = typeErrorText sv key v"

text \<open>
  The world: the log of calls, and the records the store has accepted, in the order of
  their acceptance. An upsert that succeeds stores its whole batch; one that throws
  stores nothing.
\<close>

record world =
  calls :: "call list"
  stored :: "vrecord list"

definition logCall :: "call \<Rightarrow> world \<Rightarrow> world" where
  "logCall c w = w\<lparr>calls := calls w @ [c]\<rparr>"

section \<open>The pipeline functions\<close>

subsection \<open>processDocument\<close>

text \<open>The configuration the code writes: \<^verbatim>\<open>{ chunkSize: 500, chunkOverlap: 100 }\<close>.\<close>

definition splitterOptions :: splitterConfig where
  "splitterOptions = \<lparr>chunkSize = 500, chunkOverlap = 100\<rparr>"

definition processDocument :: "services \<Rightarrow> json \<Rightarrow> world \<Rightarrow> (error + string list) \<times> world" where
  "processDocument sv documentText w =
     (if \<not> truthy documentText \<or> \<not> isString documentText
      then (Inl (Error ''Invalid document text provided''), w)
      else (case newSplitter sv splitterOptions of
              Some e \<Rightarrow> (Inl e, w)
            | None \<Rightarrow>
               (let w1 = logCall (SplitText splitterOptions (strOf documentText)) w in
                case splitText sv splitterOptions (strOf documentText) of
                  Inl e \<Rightarrow> (Inl e, w1)
                | Inr chunks \<Rightarrow>
                    if length chunks = 0
                    then (Inl (Error ''Document chunking resulted in zero chunks''), w1)
                    else (Inr chunks, w1))))"

subsection \<open>generateEmbeddings\<close>

definition generateEmbeddings ::
  "services \<Rightarrow> string list \<Rightarrow> world \<Rightarrow> (error + real list list) \<times> world" where
  "generateEmbeddings sv chunks w =
     (if length chunks = 0
      then (Inl (Error ''Invalid chunks array provided''), w)
      else (let w1 = logCall (EmbedDocuments chunks) w in
            case embedDocuments sv chunks of
              Inl e \<Rightarrow> (Inl e, w1)
            | Inr vectors \<Rightarrow>
                if length vectors = 0 \<or> length (vectors ! 0) = 0
                then (Inl (Error ''Failed to generate valid embeddings - empty vectors returned''), w1)
                else (Inr vectors, w1)))"

subsection \<open>storeInPinecone\<close>

definition batchSize :: nat where
  "batchSize = 100"

text \<open>
  The record of chunk \<open>i\<close>:
  \<^verbatim>\<open>id: `chunk_${i}_${Date.now()}_${Math.random().toString(36).substr(2, 9)}`\<close>.
\<close>

definition mkRecord :: "services \<Rightarrow> real list list \<Rightarrow> string \<Rightarrow> nat \<Rightarrow> vrecord" where
  "mkRecord sv vectors chunk i =
     \<lparr>rec_id = ''chunk_'' @ numToString (int i) @ ''_'' @ numToString (dateNow sv i) @ ''_''
                @ randomSuffix sv i,
      rec_values = vectors ! i,
      rec_metadata = JObj [(''text'', JStr chunk), (''timestamp'', JStr (isoTimestamp sv i))]\<rparr>"

text \<open>
  \<^verbatim>\<open>for (let i = 0; i < records.length; i += batchSize) { await index.upsert(records.slice(i, i + batchSize)) }\<close>:
  an upsert that throws ends the loop, and the function, with its error.
\<close>

function upsertLoop :: "services \<Rightarrow> vrecord list \<Rightarrow> nat \<Rightarrow> world \<Rightarrow> (error + unit) \<times> world" where
  "upsertLoop sv records i w =
     (if i < length records
      then (let batch = slice records i (i + batchSize);
                w1 = logCall (Upsert batch) w
            in case upsert sv (stored w) batch of
                 Some e \<Rightarrow> (Inl e, w1)
               | None \<Rightarrow> upsertLoop sv records (i + batchSize) (w1\<lparr>stored := stored w @ batch\<rparr>))
      else (Inr (), w))"
  by pat_completeness auto
termination
  by (relation "measure (\<lambda>(sv, records, i, w). length records - i)") (auto simp: batchSize_def)

declare upsertLoop.simps [simp del]

definition storeInPinecone ::
  "services \<Rightarrow> string list \<Rightarrow> real list list \<Rightarrow> world \<Rightarrow> (error + nat) \<times> world" where
  "storeInPinecone sv chunks vectors w =
     (if length chunks \<noteq> length vectors
      then (Inl (Error ''Mismatch between chunks and vectors length''), w)
      else (let records = mapIndexed (mkRecord sv vectors) chunks in
            case upsertLoop sv records 0 w of
              (Inl e, w1) \<Rightarrow> (Inl e, w1)
            | (Inr u, w1) \<Rightarrow> (Inr (length records), w1)))"

subsection \<open>queryDocument\<close>

text \<open>\<^verbatim>\<open>match.metadata?.text && typeof match.metadata.text === 'string'\<close>\<close>

definition hasText :: "match \<Rightarrow> bool" where
  "hasText m = (truthy (optProp (match_metadata m) ''text'') \<and> isString (optProp (match_metadata m) ''text''))"

text \<open>
  \<^verbatim>\<open>match.metadata.text\<close>, read only on the matches the filter has kept, where it is a
  string.
\<close>

definition matchText :: "match \<Rightarrow> string" where
  "matchText m = strOf (optProp (match_metadata m) ''text'')"

definition queryDocument :: "services \<Rightarrow> json \<Rightarrow> world \<Rightarrow> (error + string list) \<times> world" where
  "queryDocument sv question w =
     (if \<not> truthy question \<or> \<not> isString question
      then (Inl (Error ''Invalid question provided''), w)
      else (let w1 = logCall (EmbedQuery (strOf question)) w in
            case embedQuery sv (strOf question) of
              Inl e \<Rightarrow> (Inl e, w1)
            | Inr queryVector \<Rightarrow>
               (let w2 = logCall (Query queryVector 3 True) w1 in
                case query sv queryVector 3 of
                  Inl e \<Rightarrow> (Inl e, w2)
                | Inr matches \<Rightarrow> (Inr (map matchText (filter hasText matches)), w2))))"

subsection \<open>generateAnswer\<close>

definition newline :: string where
  "newline = [CHR 0x0A]"

text \<open>The template of the prompt, line by line.\<close>

definition prompt :: "string \<Rightarrow> string list \<Rightarrow> string" where
  "prompt question context =
     ''You are a helpful assistant. Answer the question using ONLY the provided context.'' @ newline
     @ ''If the answer is not found in the context, state that clearly and do not make up information.'' @ newline
     @ newline
     @ ''Question: '' @ question @ newline
     @ newline
     @ ''Context:'' @ newline
     @ join (newline @ newline)
         (mapIndexed (\<lambda>c i. ''['' @ numToString (int (i + 1)) @ ''] '' @ c) context) @ newline
     @ newline
     @ ''Answer with citations (e.g., [1], [2]):''"

definition generateAnswer :: "services \<Rightarrow> string \<Rightarrow> string list \<Rightarrow> world \<Rightarrow> (error + string) \<times> world" where
  "generateAnswer sv question context w =
     (if length context = 0
      then (Inl (Error ''No context available for answer generation''), w)
      else (let w1 = logCall (GenerateContent ''gemini-2.5-flash'' (prompt question context)) w in
            (generateContent sv ''gemini-2.5-flash'' (prompt question context), w1)))"

section \<open>The two request handlers\<close>

text \<open>A response: \<^verbatim>\<open>res.status(status).json(body)\<close>, the body with its properties in the order written.\<close>

record response =
  status :: nat
  body :: "(string \<times> json) list"

text \<open>\<^verbatim>\<open>Date.now() - startTime\<close>, read when the response is built.\<close>

definition duration :: "services \<Rightarrow> json" where
  "duration sv = JNum (of_int (endTime sv - startTime sv))"

text \<open>A validation failure: \<^verbatim>\<open>res.status(400).json({ error, success: false })\<close>.\<close>

definition clientError :: "string \<Rightarrow> response" where
  "clientError msg = \<lparr>status = 400, body = [(''error'', JStr msg), (''success'', JBool False)]\<rparr>"

text \<open>The \<^verbatim>\<open>catch\<close> block of a handler: every error thrown inside \<^verbatim>\<open>try\<close> ends here.\<close>

definition serverError :: "services \<Rightarrow> string \<Rightarrow> error \<Rightarrow> response" where
  "serverError sv msg e =
     \<lparr>status = 500,
      body = [(''error'', JStr msg),
              (''success'', JBool False),
              (''details'', if NODE_ENV sv = ''development'' then JStr (message sv e) else JUndefined),
              (''duration'', duration sv)]\<rparr>"

text \<open>\<^verbatim>\<open>app.post('/api/index-document', ...)\<close>, on \<^verbatim>\<open>req.body\<close>.\<close>

definition postIndexDocument :: "services \<Rightarrow> json \<Rightarrow> world \<Rightarrow> response \<times> world" where
  "postIndexDocument sv reqBody w =
     (case getProp reqBody ''documentText'' of
        Inl e \<Rightarrow> (serverError sv ''Failed to index document. Please try again.'' e, w)
      | Inr documentText \<Rightarrow>
          if \<not> truthy documentText
          then (clientError ''Document text is required.'', w)
          else if \<not> isString documentText
          then (clientError ''Document text must be a string.'', w)
          else if length (strOf documentText) > 500000
          then (clientError ''Document text exceeds maximum length of 500,000 characters.'', w)
          else (case processDocument sv documentText w of
                  (Inl e, w1) \<Rightarrow> (serverError sv ''Failed to index document. Please try again.'' e, w1)
                | (Inr chunks, w1) \<Rightarrow>
                   (case generateEmbeddings sv chunks w1 of
                      (Inl e, w2) \<Rightarrow> (serverError sv ''Failed to index document. Please try again.'' e, w2)
                    | (Inr vectors, w2) \<Rightarrow>
                       (case storeInPinecone sv chunks vectors w2 of
                          (Inl e, w3) \<Rightarrow>
                            (serverError sv ''Failed to index document. Please try again.'' e, w3)
                        | (Inr recordCount, w3) \<Rightarrow>
                            (\<lparr>status = 200,
                              body = [(''message'', JStr (''Document successfully indexed with ''
                                                        @ numToString (int (length chunks)) @ '' chunks.'')),
                                      (''success'', JBool True),
                                      (''chunkCount'', JNum (of_nat (length chunks))),
                                      (''recordCount'', JNum (of_nat recordCount)),
                                      (''duration'', duration sv)]\<rparr>, w3)))))"

text \<open>\<^verbatim>\<open>app.post('/api/answer-question', ...)\<close>, on \<^verbatim>\<open>req.body\<close>.\<close>

definition postAnswerQuestion :: "services \<Rightarrow> json \<Rightarrow> world \<Rightarrow> response \<times> world" where
  "postAnswerQuestion sv reqBody w =
     (case getProp reqBody ''question'' of
        Inl e \<Rightarrow> (serverError sv ''Failed to answer the question. Please try again.'' e, w)
      | Inr question \<Rightarrow>
          if \<not> truthy question
          then (clientError ''Question is required.'', w)
          else if \<not> isString question
          then (clientError ''Question must be a string.'', w)
          else if length (strOf question) > 1000
          then (clientError ''Question exceeds maximum length of 1,000 characters.'', w)
          else (case queryDocument sv question w of
                  (Inl e, w1) \<Rightarrow> (serverError sv ''Failed to answer the question. Please try again.'' e, w1)
                | (Inr relevantChunks, w1) \<Rightarrow>
                    if length relevantChunks = 0
                    then (\<lparr>status = 200,
                           body = [(''answer'', JStr ''I couldn't find any relevant information in the document store to answer that question.''),
                                   (''success'', JBool True),
                                   (''chunksRetrieved'', JNum 0),
                                   (''duration'', duration sv)]\<rparr>, w1)
                    else (case generateAnswer sv (strOf question) relevantChunks w1 of
                            (Inl e, w2) \<Rightarrow>
                              (serverError sv ''Failed to answer the question. Please try again.'' e, w2)
                          | (Inr answer, w2) \<Rightarrow>
                              (\<lparr>status = 200,
                                body = [(''answer'', JStr answer),
                                        (''success'', JBool True),
                                        (''chunksRetrieved'', JNum (of_nat (length relevantChunks))),
                                        (''duration'', duration sv)]\<rparr>, w2))))"

section \<open>Notions of the specification\<close>

text \<open>
  The partition of a sequence into consecutive batches of at most \<open>n\<close> elements: every
  batch but the last has \<open>n\<close> elements, and no batch is empty.
\<close>

function batchesOf :: "nat \<Rightarrow> 'a list \<Rightarrow> 'a list list" where
  "batchesOf n xs = (if n = 0 \<or> xs = [] then [] else take n xs # batchesOf n (drop n xs))"
  by pat_completeness auto
termination
  by (relation "measure (\<lambda>(n, xs). length xs)") auto

declare batchesOf.simps [simp del]

text \<open>
  Submitting a list of batches one after the other: each upsert sees the store as the
  batches before it have left it, and the first upsert that throws ends the run.
\<close>

fun submit :: "services \<Rightarrow> vrecord list list \<Rightarrow> world \<Rightarrow> (error + unit) \<times> world" where
  "submit sv [] w = (Inr (), w)"
| "submit sv (b # bs) w =
     (case upsert sv (stored w) b of
        Some e \<Rightarrow> (Inl e, logCall (Upsert b) w)
      | None \<Rightarrow> submit sv bs ((logCall (Upsert b) w)\<lparr>stored := stored w @ b\<rparr>))"


text \<open>
  The number a string of decimal digits stands for: each character counts for its
  distance from the character \<open>0\<close>, the leftmost digit weighing most.
\<close>

definition decimalValue :: "string \<Rightarrow> nat" where
  "decimalValue s = foldl (\<lambda>v c. 10 * v + (of_char c - 48)) 0 s"

section \<open>Example services\<close>

text \<open>
  Services under which every call succeeds: the splitter returns the text as one chunk,
  the embedder a vector of one component for each text, the store accepts every batch
  and finds no match, and the language model answers \<open>ok\<close>.
\<close>

definition exampleServices :: services where
  "exampleServices =
     \<lparr>newSplitter = (\<lambda>cfg. None),
      splitText = (\<lambda>cfg text. Inr [text]),
      embedDocuments = (\<lambda>chunks. Inr (map (\<lambda>c. [1]) chunks)),
      embedQuery = (\<lambda>q. Inr [1]),
      upsert = (\<lambda>held batch. None),
      query = (\<lambda>v k. Inr []),
      generateContent = (\<lambda>model contents. Inr ''ok''),
      dateNow = (\<lambda>i. 1700000000000),
      randomSuffix = (\<lambda>i. ''k3j9x0q1z''),
      isoTimestamp = (\<lambda>i. ''2025-01-01T00:00:00.000Z''),
      startTime = 1700000000000,
      endTime = 1700000000005,
      NODE_ENV = ''development'',
      typeErrorText = (\<lambda>key v. ''Cannot destructure property '' @ key @ '' of req.body'')\<rparr>"

definition emptyWorld :: world where
  "emptyWorld = \<lparr>calls = [], stored = []\<rparr>"

text \<open>A splitter that returns no chunk at all.\<close>

definition noChunkServices :: services where
  "noChunkServices = exampleServices\<lparr>splitText := (\<lambda>cfg text. Inr [])\<rparr>"



text \<open>A store that throws once it holds a hundred records or more.\<close>

definition fullStoreServices :: services where
  "fullStoreServices =
     exampleServices\<lparr>upsert := (\<lambda>held batch. if length held \<ge> 100
                                          then Some (Error ''store unavailable'') else None)\<rparr>"

text \<open>A hundred and fifty records, told apart by their number.\<close>

definition exampleRecord :: "nat \<Rightarrow> vrecord" where
  "exampleRecord i = \<lparr>rec_id = natToString i, rec_values = [of_nat i], rec_metadata = JNull\<rparr>"

definition exampleRecords :: "vrecord list" where
  "exampleRecords = map exampleRecord [0..<150]"

text \<open>Three matches, the second without metadata.\<close>

definition exampleMatches :: "match list" where
  "exampleMatches =
     [\<lparr>match_id = ''a'', match_score = 0.9, match_metadata = JObj [(''text'', JStr ''first'')]\<rparr>,
      \<lparr>match_id = ''b'', match_score = 0.8, match_metadata = JUndefined\<rparr>,
      \<lparr>match_id = ''c'', match_score = 0.7, match_metadata = JObj [(''text'', JStr ''third'')]\<rparr>]"

definition matchingServices :: services where
  "matchingServices = exampleServices\<lparr>query := (\<lambda>v k. Inr (take k exampleMatches))\<rparr>"

section \<open>Properties\<close>

lemma digitChar_inj: "d < 10 \<Longrightarrow> d' < 10 \<Longrightarrow> digitChar d = digitChar d' \<Longrightarrow> d = d'"
proof -
  assume a: "d < 10" "d' < 10" "digitChar d = digitChar d'"
  have "distinct ''0123456789''" by simp
  moreover from a(1,2) have "d < length ''0123456789''" "d' < length ''0123456789''" by simp_all
  ultimately show ?thesis using a(3) unfolding digitChar_def by (simp only: nth_eq_iff_index_eq)
qed

lemma digitChar_not_underscore: "d < 10 \<Longrightarrow> digitChar d \<noteq> CHR ''_''"
proof
  assume a: "d < 10" "digitChar d = CHR ''_''"
  from a(1) have "d < length ''0123456789''" by simp
  then have "''0123456789'' ! d \<in> set ''0123456789''" by (rule nth_mem)
  with a(2) have "CHR ''_'' \<in> set ''0123456789''" by (simp only: digitChar_def)
  then show False by simp
qed

lemma natToString_digits: "c \<in> set (natToString n) \<Longrightarrow> \<exists>d<10. c = digitChar d"
proof (induction n rule: natToString.induct)
  case (1 n)
  show ?case
  proof (cases "n < 10")
    case True
    with "1.prems" show ?thesis by (auto simp: natToString.simps[of n])
  next
    case False
    with "1.prems" have "c \<in> set (natToString (n div 10)) \<or> c = digitChar (n mod 10)"
      by (auto simp: natToString.simps[of n])
    then show ?thesis
    proof
      assume "c \<in> set (natToString (n div 10))"
      with "1.IH" False show ?thesis by simp
    next
      assume "c = digitChar (n mod 10)"
      moreover have "n mod 10 < 10" by simp
      ultimately show ?thesis by blast
    qed
  qed
qed

lemma natToString_no_underscore: "CHR ''_'' \<notin> set (natToString n)"
  using natToString_digits digitChar_not_underscore by metis

lemma natToString_nonempty: "natToString n \<noteq> []"
  by (subst natToString.simps) simp

lemma natToString_inj: "natToString n = natToString m \<Longrightarrow> n = m"
proof (induction n arbitrary: m rule: natToString.induct)
  case (1 n)
  show ?case
  proof (cases "n < 10")
    case n: True
    show ?thesis
    proof (cases "m < 10")
      case True
      with n "1.prems" show ?thesis
        by (simp add: natToString.simps[of n] natToString.simps[of m] digitChar_inj)
    next
      case False
      with n "1.prems" have "[digitChar n] = natToString (m div 10) @ [digitChar (m mod 10)]"
        by (simp add: natToString.simps[of n] natToString.simps[of m])
      then show ?thesis using natToString_nonempty[of "m div 10"] by simp
    qed
  next
    case n: False
    show ?thesis
    proof (cases "m < 10")
      case True
      with n "1.prems" have "natToString (n div 10) @ [digitChar (n mod 10)] = [digitChar m]"
        by (simp add: natToString.simps[of n] natToString.simps[of m])
      then show ?thesis using natToString_nonempty[of "n div 10"] by simp
    next
      case False
      with n "1.prems" have "natToString (n div 10) @ [digitChar (n mod 10)] = natToString (m div 10) @ [digitChar (m mod 10)]"
        by (simp add: natToString.simps[of n] natToString.simps[of m])
      then have a: "natToString (n div 10) = natToString (m div 10)" and b: "digitChar (n mod 10) = digitChar (m mod 10)"
        by simp_all
      from a n "1.IH" have "n div 10 = m div 10" by simp
      moreover from b have "n mod 10 = m mod 10" by (simp add: digitChar_inj)
      ultimately show ?thesis by (metis div_mult_mod_eq)
    qed
  qed
qed

lemma sep_unique: "c \<notin> set a \<Longrightarrow> c \<notin> set b \<Longrightarrow> a @ c # r = b @ c # r' \<Longrightarrow> a = b"
proof (induction a arbitrary: b)
  case Nil
  then show ?case by (cases b) auto
next
  case (Cons x a)
  then show ?case by (cases b) auto
qed

lemma mkRecord_id_inj: "rec_id (mkRecord sv vectors c i) = rec_id (mkRecord sv vectors c' j) \<Longrightarrow> i = j"
proof -
  assume "rec_id (mkRecord sv vectors c i) = rec_id (mkRecord sv vectors c' j)"
  then have "natToString i @ CHR ''_'' # (numToString (dateNow sv i) @ ''_'' @ randomSuffix sv i)
           = natToString j @ CHR ''_'' # (numToString (dateNow sv j) @ ''_'' @ randomSuffix sv j)"
    by (simp add: mkRecord_def numToString_def)
  then have "natToString i = natToString j"
    by (rule sep_unique[OF natToString_no_underscore natToString_no_underscore])
  then show ?thesis by (rule natToString_inj)
qed

lemma mapIndexed_nth: "k < length xs \<Longrightarrow> mapIndexed f xs ! k = f (xs ! k) k"
  by (simp add: mapIndexed_def nth_enumerate_eq)

lemma length_mapIndexed: "length (mapIndexed f xs) = length xs"
  by (simp add: mapIndexed_def)

lemma batchesOf_Nil: "batchesOf n [] = []"
  by (simp add: batchesOf.simps)

lemma batchesOf_step: "0 < n \<Longrightarrow> xs \<noteq> [] \<Longrightarrow> batchesOf n xs = take n xs # batchesOf n (drop n xs)"
  by (subst batchesOf.simps) simp

lemma concat_batchesOf: "0 < n \<Longrightarrow> concat (batchesOf n xs) = xs"
proof (induction n xs rule: batchesOf.induct)
  case (1 n xs)
  show ?case
  proof (cases "xs = []")
    case True
    then show ?thesis by (simp add: batchesOf_Nil)
  next
    case False
    with 1 show ?thesis by (simp add: batchesOf_step)
  qed
qed

lemma batchesOf_bounds: "b \<in> set (batchesOf n xs) \<Longrightarrow> b \<noteq> [] \<and> length b \<le> n"
proof (induction n xs rule: batchesOf.induct)
  case (1 n xs)
  show ?case
  proof (cases "n = 0 \<or> xs = []")
    case True
    with "1.prems" show ?thesis by (simp add: batchesOf.simps[of n xs])
  next
    case False
    with "1.prems" have "b = take n xs \<or> b \<in> set (batchesOf n (drop n xs))"
      by (simp add: batchesOf.simps[of n xs])
    then show ?thesis
    proof
      assume "b = take n xs"
      with False show ?thesis by simp
    next
      assume "b \<in> set (batchesOf n (drop n xs))"
      with "1.IH" False show ?thesis by simp
    qed
  qed
qed

lemma upsertLoop_submit: "upsertLoop sv records i w = submit sv (batchesOf batchSize (drop i records)) w"
proof (induction sv records i w rule: upsertLoop.induct)
  case (1 sv records i w)
  show ?case
  proof (cases "i < length records")
    case False
    then show ?thesis by (simp add: upsertLoop.simps[of sv records i w] batchesOf_Nil)
  next
    case True
    then have ne: "drop i records \<noteq> []" by simp
    have pos: "0 < batchSize" by (simp add: batchSize_def)
    have sl: "slice records i (i + batchSize) = take batchSize (drop i records)"
      by (simp add: slice_def)
    have dr: "drop batchSize (drop i records) = drop (i + batchSize) records"
      by (simp add: add.commute)
    have step: "batchesOf batchSize (drop i records)
                = slice records i (i + batchSize) # batchesOf batchSize (drop (i + batchSize) records)"
      by (simp only: batchesOf_step[OF pos ne] sl dr)
    show ?thesis
    proof (cases "upsert sv (stored w) (slice records i (i + batchSize))")
      case (Some e)
      with True show ?thesis
        by (simp add: upsertLoop.simps[of sv records i w] step Let_def)
    next
      case None
      have "upsertLoop sv records i w
            = upsertLoop sv records (i + batchSize)
                ((logCall (Upsert (slice records i (i + batchSize))) w)
                   \<lparr>stored := stored w @ slice records i (i + batchSize)\<rparr>)"
        using True None by (simp add: upsertLoop.simps[of sv records i w] Let_def)
      also have "\<dots> = submit sv (batchesOf batchSize (drop (i + batchSize) records))
                ((logCall (Upsert (slice records i (i + batchSize))) w)
                   \<lparr>stored := stored w @ slice records i (i + batchSize)\<rparr>)"
        using "1.IH"[OF True refl refl None] .
      also have "\<dots> = submit sv (batchesOf batchSize (drop i records)) w"
        using None by (simp add: step)
      finally show ?thesis .
    qed
  qed
qed

lemma submit_prefix:
  "submit sv bs w = (r, w') \<Longrightarrow>
   \<exists>k\<le>length bs.
      stored w' = stored w @ concat (take k bs)
    \<and> (\<forall>j<k. upsert sv (stored w @ concat (take j bs)) (bs ! j) = None)
    \<and> (case r of
          Inr u \<Rightarrow> k = length bs \<and> calls w' = calls w @ map Upsert bs
        | Inl e \<Rightarrow> k < length bs \<and> calls w' = calls w @ map Upsert (take (Suc k) bs)
                   \<and> upsert sv (stored w @ concat (take k bs)) (bs ! k) = Some e)"
proof (induction bs arbitrary: w)
  case Nil
  then show ?case by auto
next
  case (Cons b bs)
  show ?case
  proof (cases "upsert sv (stored w) b")
    case (Some e)
    with Cons.prems have "r = Inl e" "w' = logCall (Upsert b) w" by auto
    with Some show ?thesis by (intro exI[of _ 0]) (simp add: logCall_def)
  next
    case None
    define w2 where "w2 = (logCall (Upsert b) w)\<lparr>stored := stored w @ b\<rparr>"
    from None Cons.prems have "submit sv bs w2 = (r, w')" by (simp add: w2_def)
    from Cons.IH[OF this] obtain k where k: "k \<le> length bs"
      "stored w' = stored w2 @ concat (take k bs)"
      "\<forall>j<k. upsert sv (stored w2 @ concat (take j bs)) (bs ! j) = None"
      "case r of
          Inr u \<Rightarrow> k = length bs \<and> calls w' = calls w2 @ map Upsert bs
        | Inl e \<Rightarrow> k < length bs \<and> calls w' = calls w2 @ map Upsert (take (Suc k) bs)
                   \<and> upsert sv (stored w2 @ concat (take k bs)) (bs ! k) = Some e"
      by blast
    have s2: "stored w2 = stored w @ b" and c2: "calls w2 = calls w @ [Upsert b]"
      by (simp_all add: w2_def logCall_def)
    have "\<forall>j<Suc k. upsert sv (stored w @ concat (take j (b # bs))) ((b # bs) ! j) = None"
    proof (intro allI impI)
      fix j assume "j < Suc k"
      then show "upsert sv (stored w @ concat (take j (b # bs))) ((b # bs) ! j) = None"
        using None k(3) s2 by (cases j) auto
    qed
    moreover have "stored w' = stored w @ concat (take (Suc k) (b # bs))"
      using k(2) s2 by simp
    moreover have "case r of
          Inr u \<Rightarrow> Suc k = length (b # bs) \<and> calls w' = calls w @ map Upsert (b # bs)
        | Inl e \<Rightarrow> Suc k < length (b # bs) \<and> calls w' = calls w @ map Upsert (take (Suc (Suc k)) (b # bs))
                   \<and> upsert sv (stored w @ concat (take (Suc k) (b # bs))) ((b # bs) ! Suc k) = Some e"
      using k(4) s2 c2 by (cases r) auto
    moreover have "Suc k \<le> length (b # bs)" using k(1) by simp
    ultimately show ?thesis by blast
  qed
qed

lemma mapIndexed_upt: "mapIndexed f xs = map (\<lambda>i. f (xs ! i) i) [0..<length xs]"
  by (rule nth_equalityI) (simp_all add: length_mapIndexed mapIndexed_nth)

lemma mapIndexed_first_rest:
  "xs \<noteq> [] \<Longrightarrow> mapIndexed f xs = f (xs ! 0) 0 # map (\<lambda>i. f (xs ! i) i) [1..<length xs]"
  by (simp add: mapIndexed_upt upt_conv_Cons)

lemma join_first_rest: "join sep (x # xs) = x @ concat (map (\<lambda>y. sep @ y) xs)"
  by (induction xs arbitrary: x) simp_all

lemma of_char_digitChar: "d < 10 \<Longrightarrow> of_char (digitChar d) = 48 + d"
proof -
  assume "d < 10"
  then have "d \<in> {0, 1, 2, 3, 4, 5, 6, 7, 8, 9}" by auto
  then show ?thesis by (auto simp: digitChar_def)
qed

lemma decimalValue_snoc: "decimalValue (s @ [c]) = 10 * decimalValue s + (of_char c - 48)"
  by (simp add: decimalValue_def)

lemma decimalValue_natToString: "decimalValue (natToString n) = n"
proof (induction n rule: natToString.induct)
  case (1 n)
  show ?case
  proof (cases "n < 10")
    case True
    then show ?thesis
      by (simp add: natToString.simps[of n] decimalValue_def of_char_digitChar)
  next
    case False
    have "decimalValue (natToString n)
            = 10 * decimalValue (natToString (n div 10)) + (of_char (digitChar (n mod 10)) - 48)"
      using False by (simp add: natToString.simps[of n] decimalValue_snoc)
    also have "\<dots> = 10 * (n div 10) + n mod 10"
      using "1.IH" False by (simp add: of_char_digitChar)
    also have "\<dots> = n" by simp
    finally show ?thesis .
  qed
qed

lemma natToString_digit_set: "set (natToString n) \<subseteq> set ''0123456789''"
proof
  fix c assume "c \<in> set (natToString n)"
  then obtain d where d: "d < 10" "c = digitChar d" using natToString_digits by blast
  from d(1) have "d < length ''0123456789''" by simp
  then have "''0123456789'' ! d \<in> set ''0123456789''" by (rule nth_mem)
  with d(2) show "c \<in> set ''0123456789''" by (simp only: digitChar_def)
qed

lemma natToString_no_leading_zero: "0 < n \<Longrightarrow> hd (natToString n) \<noteq> CHR ''0''"
proof (induction n rule: natToString.induct)
  case (1 n)
  show ?case
  proof (cases "n < 10")
    case True
    have zero: "digitChar 0 = CHR ''0''" by (simp add: digitChar_def)
    from True "1.prems" have "digitChar n \<noteq> digitChar 0"
      using digitChar_inj[of n 0] by auto
    with True zero show ?thesis by (simp add: natToString.simps[of n])
  next
    case False
    then have "0 < n div 10" by simp
    with "1.IH" False have "hd (natToString (n div 10)) \<noteq> CHR ''0''" by simp
    with False show ?thesis
      by (simp add: natToString.simps[of n] natToString_nonempty)
  qed
qed

text \<open>
  Claim C1. For every question and every non-empty context, the prompt is a function
  of the question and the context alone, written here character by character: the
  instruction to answer from the provided context only and to say so when the answer
  is not there, an empty line, \<open>Question: \<close> and the question, an empty line, the line
  \<open>Context:\<close>, the first context item after \<open>[1] \<close>, each later item \<open>i\<close> (counted
  from 0) after an empty line and \<open>[i + 1] \<close>, in the order of the context and each
  once, an empty line, and the closing instruction to answer with citations. The index
  in the brackets is the decimal numeral of \<open>i + 1\<close>: digits only, no leading zero, of
  value \<open>i + 1\<close>. It is this prompt that \<^verbatim>\<open>generateAnswer\<close> sends to the language model.
\<close>

theorem prompt_structure:
  "context \<noteq> [] \<Longrightarrow>
     prompt question context =
       ''You are a helpful assistant. Answer the question using ONLY the provided context.\<newline>If the answer is not found in the context, state that clearly and do not make up information.\<newline>\<newline>Question: ''
       @ question
       @ ''\<newline>\<newline>Context:\<newline>[1] '' @ context ! 0
       @ concat (map (\<lambda>i. ''\<newline>\<newline>['' @ numToString (int (i + 1)) @ ''] '' @ context ! i)
                     [1..<length context])
       @ ''\<newline>\<newline>Answer with citations (e.g., [1], [2]):''
   \<and> (\<forall>i. decimalValue (numToString (int (i + 1))) = i + 1
          \<and> set (numToString (int (i + 1))) \<subseteq> set ''0123456789''
          \<and> hd (numToString (int (i + 1))) \<noteq> CHR ''0'')
   \<and> calls (snd (generateAnswer sv question context w))
       = calls w @ [GenerateContent ''gemini-2.5-flash'' (prompt question context)]"
proof (intro conjI allI)
  assume ne: "context \<noteq> []"
  have one: "numToString (int (0 + 1)) = ''1''"
    by (simp add: numToString_def natToString.simps digitChar_def)
  let ?item = "\<lambda>c i. ''['' @ numToString (int (i + 1)) @ ''] '' @ c"
  have "join (newline @ newline) (mapIndexed ?item context)
          = ?item (context ! 0) 0
            @ concat (map (\<lambda>y. (newline @ newline) @ y)
                          (map (\<lambda>i. ?item (context ! i) i) [1..<length context]))"
    by (simp only: mapIndexed_first_rest[OF ne] join_first_rest)
  also have "\<dots> = ''[1] '' @ context ! 0
            @ concat (map (\<lambda>i. ''\<newline>\<newline>['' @ numToString (int (i + 1)) @ ''] '' @ context ! i)
                          [1..<length context])"
    using one by (simp add: newline_def comp_def)
  finally have items: "join (newline @ newline) (mapIndexed ?item context)
          = ''[1] '' @ context ! 0
            @ concat (map (\<lambda>i. ''\<newline>\<newline>['' @ numToString (int (i + 1)) @ ''] '' @ context ! i)
                          [1..<length context])" .
  show "prompt question context =
       ''You are a helpful assistant. Answer the question using ONLY the provided context.\<newline>If the answer is not found in the context, state that clearly and do not make up information.\<newline>\<newline>Question: ''
       @ question
       @ ''\<newline>\<newline>Context:\<newline>[1] '' @ context ! 0
       @ concat (map (\<lambda>i. ''\<newline>\<newline>['' @ numToString (int (i + 1)) @ ''] '' @ context ! i)
                     [1..<length context])
       @ ''\<newline>\<newline>Answer with citations (e.g., [1], [2]):''"
    unfolding prompt_def items by (simp add: newline_def)
  from ne show "calls (snd (generateAnswer sv question context w))
       = calls w @ [GenerateContent ''gemini-2.5-flash'' (prompt question context)]"
    by (simp add: generateAnswer_def logCall_def Let_def)
next
  fix i :: nat
  have n: "numToString (int (i + 1)) = natToString (i + 1)"
  proof -
    have "\<not> int (i + 1) < 0" by simp
    moreover have "nat (int (i + 1)) = i + 1" by (rule nat_int)
    ultimately show ?thesis unfolding numToString_def by (simp only: if_False)
  qed
  show "decimalValue (numToString (int (i + 1))) = i + 1"
    unfolding n by (rule decimalValue_natToString)
  show "set (numToString (int (i + 1))) \<subseteq> set ''0123456789''"
    unfolding n by (rule natToString_digit_set)
  show "hd (numToString (int (i + 1))) \<noteq> CHR ''0''"
    unfolding n by (rule natToString_no_leading_zero) simp
qed

text \<open>
  The prompt for the question \<open>What is it?\<close> and the context \<open>alpha\<close>, \<open>beta\<close>, \<open>gamma\<close>,
  as one string.
\<close>

theorem prompt_structure_witness:
  "[''alpha'', ''beta'', ''gamma''] \<noteq> ([] :: string list)
   \<and> prompt ''What is it?'' [''alpha'', ''beta'', ''gamma''] =
       ''You are a helpful assistant. Answer the question using ONLY the provided context.\<newline>If the answer is not found in the context, state that clearly and do not make up information.\<newline>\<newline>Question: What is it?\<newline>\<newline>Context:\<newline>[1] alpha\<newline>\<newline>[2] beta\<newline>\<newline>[3] gamma\<newline>\<newline>Answer with citations (e.g., [1], [2]):''
   \<and> decimalValue ''12'' = 12
   \<and> calls (snd (generateAnswer exampleServices ''What is it?'' [''alpha'', ''beta'', ''gamma''] emptyWorld))
       = [GenerateContent ''gemini-2.5-flash''
            ''You are a helpful assistant. Answer the question using ONLY the provided context.\<newline>If the answer is not found in the context, state that clearly and do not make up information.\<newline>\<newline>Question: What is it?\<newline>\<newline>Context:\<newline>[1] alpha\<newline>\<newline>[2] beta\<newline>\<newline>[3] gamma\<newline>\<newline>Answer with citations (e.g., [1], [2]):'']"
proof -
  have ne: "[''alpha'', ''beta'', ''gamma''] \<noteq> ([] :: string list)" by simp
  have two: "numToString 2 = ''2''" and three: "numToString 3 = ''3''"
    by (simp_all add: numToString_def natToString.simps digitChar_def)
  have idx: "[1..<3] = [1, 2]" by (simp add: upt_rec)
  have dv: "decimalValue ''12'' = 12" by (simp add: decimalValue_def)
  note t = prompt_structure[OF ne, of "''What is it?''" exampleServices emptyWorld]
  from t have p: "prompt ''What is it?'' [''alpha'', ''beta'', ''gamma''] =
       ''You are a helpful assistant. Answer the question using ONLY the provided context.\<newline>If the answer is not found in the context, state that clearly and do not make up information.\<newline>\<newline>Question: What is it?\<newline>\<newline>Context:\<newline>[1] alpha\<newline>\<newline>[2] beta\<newline>\<newline>[3] gamma\<newline>\<newline>Answer with citations (e.g., [1], [2]):''"
    by (simp add: two three idx)
  from t have c: "calls (snd (generateAnswer exampleServices ''What is it?'' [''alpha'', ''beta'', ''gamma''] emptyWorld))
       = [GenerateContent ''gemini-2.5-flash'' (prompt ''What is it?'' [''alpha'', ''beta'', ''gamma''])]"
    by (simp add: emptyWorld_def)
  from ne p dv c show ?thesis by (simp only: simp_thms)
qed

text \<open>
  Claim C8. With an empty context \<^verbatim>\<open>generateAnswer\<close> throws the error "No context
  available for answer generation" and leaves the world as it is: no request to the
  language model is made. With a non-empty context it makes the request, and its
  result is the result of that request.
\<close>

theorem generateAnswer_no_context:
  "generateAnswer sv question [] w = (Inl (Error ''No context available for answer generation''), w)
   \<and> (context \<noteq> [] \<longrightarrow>
        generateAnswer sv question context w
          = (generateContent sv ''gemini-2.5-flash'' (prompt question context),
             w\<lparr>calls := calls w @ [GenerateContent ''gemini-2.5-flash'' (prompt question context)]\<rparr>))"
proof
  show "generateAnswer sv question [] w
               = (Inl (Error ''No context available for answer generation''), w)"
    by (simp add: generateAnswer_def)
next
  show "context \<noteq> [] \<longrightarrow>
        generateAnswer sv question context w
          = (generateContent sv ''gemini-2.5-flash'' (prompt question context),
             w\<lparr>calls := calls w @ [GenerateContent ''gemini-2.5-flash'' (prompt question context)]\<rparr>)"
  proof
    assume "context \<noteq> []"
    then have "length context \<noteq> 0" by simp
    then show "generateAnswer sv question context w
          = (generateContent sv ''gemini-2.5-flash'' (prompt question context),
             w\<lparr>calls := calls w @ [GenerateContent ''gemini-2.5-flash'' (prompt question context)]\<rparr>)"
      by (simp add: generateAnswer_def logCall_def Let_def)
  qed
qed

text \<open>
  Both cases under the example services.
\<close>

theorem generateAnswer_no_context_witness:
  "generateAnswer exampleServices ''What is it?'' [] emptyWorld
     = (Inl (Error ''No context available for answer generation''), emptyWorld)
   \<and> [''alpha''] \<noteq> ([] :: string list)
   \<and> generateAnswer exampleServices ''What is it?'' [''alpha''] emptyWorld
     = (Inr ''ok'', \<lparr>calls = [GenerateContent ''gemini-2.5-flash'' (prompt ''What is it?'' [''alpha''])],
                     stored = []\<rparr>)"
  using generateAnswer_no_context[of exampleServices "''What is it?''" emptyWorld "[''alpha'']"]
  by (simp add: exampleServices_def emptyWorld_def)




text \<open>
  Claim C10. A request whose \<^verbatim>\<open>documentText\<close> (for the index handler) or
  \<^verbatim>\<open>question\<close> (for the answer handler) is the empty string fails the presence
  check: the response is the "required" client error and the world is unchanged, so
  nothing reaches the splitter, the embedder or the retriever.
\<close>

theorem empty_string_required:
  "(getProp reqBody ''documentText'' = Inr (JStr []) \<longrightarrow>
      postIndexDocument sv reqBody w = (clientError ''Document text is required.'', w))
   \<and> (getProp reqBody ''question'' = Inr (JStr []) \<longrightarrow>
      postAnswerQuestion sv reqBody w = (clientError ''Question is required.'', w))"
proof (intro conjI impI)
  have falsy: "\<not> truthy (JStr [])" by simp
  { assume "getProp reqBody ''documentText'' = Inr (JStr [])"
    with falsy show "postIndexDocument sv reqBody w = (clientError ''Document text is required.'', w)"
      by (simp add: postIndexDocument_def) }
  { assume "getProp reqBody ''question'' = Inr (JStr [])"
    with falsy show "postAnswerQuestion sv reqBody w = (clientError ''Question is required.'', w)"
      by (simp add: postAnswerQuestion_def) }
qed

text \<open>
  A body with both fields empty, given to both handlers.
\<close>

theorem empty_string_required_witness:
  "getProp (JObj [(''documentText'', JStr ''''), (''question'', JStr '''')]) ''documentText'' = Inr (JStr [])
   \<and> getProp (JObj [(''documentText'', JStr ''''), (''question'', JStr '''')]) ''question'' = Inr (JStr [])
   \<and> postIndexDocument exampleServices (JObj [(''documentText'', JStr ''''), (''question'', JStr '''')]) emptyWorld
       = (\<lparr>status = 400, body = [(''error'', JStr ''Document text is required.''), (''success'', JBool False)]\<rparr>,
          emptyWorld)
   \<and> postAnswerQuestion exampleServices (JObj [(''documentText'', JStr ''''), (''question'', JStr '''')]) emptyWorld
       = (\<lparr>status = 400, body = [(''error'', JStr ''Question is required.''), (''success'', JBool False)]\<rparr>,
          emptyWorld)"
  using empty_string_required[of "JObj [(''documentText'', JStr ''''), (''question'', JStr '''')]"
          exampleServices emptyWorld]
  by (simp add: clientError_def)

lemma queryDocument_success:
  "q \<noteq> [] \<Longrightarrow> embedQuery sv q = Inr v \<Longrightarrow> query sv v 3 = Inr ms \<Longrightarrow>
   queryDocument sv (JStr q) w
     = (Inr (map matchText (filter hasText ms)), w\<lparr>calls := calls w @ [EmbedQuery q, Query v 3 True]\<rparr>)"
  by (simp add: queryDocument_def logCall_def Let_def)

lemma queryDocument_calls:
  "queryDocument sv (JStr q) w = (Inr texts, w1) \<Longrightarrow>
   \<exists>v. calls w1 = calls w @ [EmbedQuery q, Query v 3 True] \<and> stored w1 = stored w"
  by (auto simp: queryDocument_def logCall_def Let_def split: if_splits sum.splits)

lemma hasText_iff: "hasText m \<longleftrightarrow> (\<exists>s. s \<noteq> [] \<and> optProp (match_metadata m) ''text'' = JStr s)"
  by (cases "optProp (match_metadata m) ''text''") (simp_all add: hasText_def)

lemma hasText_matchText: "hasText m \<Longrightarrow> JStr (matchText m) = optProp (match_metadata m) ''text'' \<and> matchText m \<noteq> []"
  by (auto simp: hasText_iff matchText_def)

text \<open>
  Claim C2. When the question of an answer request is a non-empty string of at most 1000
  characters and the retrieval returns no chunk, the answer handler responds with
  status 200, \<^verbatim>\<open>success: true\<close>, \<^verbatim>\<open>chunksRetrieved: 0\<close> and the fixed "not found"
  answer. The only calls made are the embedding of the question and the query of the
  store: the language model is not called, and the empty result is not an error.
\<close>

theorem answer_no_chunks:
  assumes "getProp reqBody ''question'' = Inr (JStr q)"
    and "q \<noteq> []"
    and "length q \<le> 1000"
    and "queryDocument sv (JStr q) w = (Inr [], w1)"
  shows "postAnswerQuestion sv reqBody w
           = (\<lparr>status = 200,
               body = [(''answer'', JStr ''I couldn't find any relevant information in the document store to answer that question.''),
                       (''success'', JBool True),
                       (''chunksRetrieved'', JNum 0),
                       (''duration'', duration sv)]\<rparr>, w1)
         \<and> (\<exists>v. calls w1 = calls w @ [EmbedQuery q, Query v 3 True])
         \<and> stored w1 = stored w"
proof -
  have "postAnswerQuestion sv reqBody w
           = (\<lparr>status = 200,
               body = [(''answer'', JStr ''I couldn't find any relevant information in the document store to answer that question.''),
                       (''success'', JBool True),
                       (''chunksRetrieved'', JNum 0),
                       (''duration'', duration sv)]\<rparr>, w1)"
    using assms by (simp add: postAnswerQuestion_def)
  moreover from queryDocument_calls[OF assms(4)]
  have "(\<exists>v. calls w1 = calls w @ [EmbedQuery q, Query v 3 True]) \<and> stored w1 = stored w"
    by blast
  ultimately show ?thesis by blast
qed

text \<open>A question put to a store that finds no match.\<close>

theorem answer_no_chunks_witness:
  "getProp (JObj [(''question'', JStr ''What is it?'')]) ''question'' = Inr (JStr ''What is it?'')
   \<and> ''What is it?'' \<noteq> []
   \<and> length ''What is it?'' \<le> 1000
   \<and> queryDocument exampleServices (JStr ''What is it?'') emptyWorld
       = (Inr [], \<lparr>calls = [EmbedQuery ''What is it?'', Query [1] 3 True], stored = []\<rparr>)
   \<and> postAnswerQuestion exampleServices (JObj [(''question'', JStr ''What is it?'')]) emptyWorld
       = (\<lparr>status = 200,
           body = [(''answer'', JStr ''I couldn't find any relevant information in the document store to answer that question.''),
                   (''success'', JBool True),
                   (''chunksRetrieved'', JNum 0),
                   (''duration'', JNum 5)]\<rparr>,
          \<lparr>calls = [EmbedQuery ''What is it?'', Query [1] 3 True], stored = []\<rparr>)"
proof -
  have h1: "getProp (JObj [(''question'', JStr ''What is it?'')]) ''question'' = Inr (JStr ''What is it?'')"
    by simp
  have h2: "''What is it?'' \<noteq> []" by simp
  have h3: "length ''What is it?'' \<le> 1000" by simp
  have h4: "queryDocument exampleServices (JStr ''What is it?'') emptyWorld
       = (Inr [], \<lparr>calls = [EmbedQuery ''What is it?'', Query [1] 3 True], stored = []\<rparr>)"
    by (simp add: queryDocument_def exampleServices_def emptyWorld_def logCall_def Let_def)
  have d: "duration exampleServices = JNum 5"
    by (simp add: duration_def exampleServices_def)
  from answer_no_chunks[OF h1 h2 h3 h4] h1 h2 h3 h4 d show ?thesis by simp
qed

text \<open>
  Claim C5. For a question that is a non-empty string, when the embedding and the search
  succeed, the retriever embeds the question, queries the store once with \<open>topK = 3\<close>,
  keeps the matches whose metadata has a text that is a non-empty string, and returns
  these texts in the order of the matches. Every text returned is non-empty, and when
  the store returns at most three matches, at most three texts are returned.
\<close>

theorem retrieve_top3:
  assumes "q \<noteq> []"
    and "embedQuery sv q = Inr v"
    and "query sv v 3 = Inr ms"
  shows "queryDocument sv (JStr q) w
           = (Inr (map matchText (filter hasText ms)),
              w\<lparr>calls := calls w @ [EmbedQuery q, Query v 3 True]\<rparr>)
         \<and> map JStr (map matchText (filter hasText ms))
             = map (\<lambda>m. optProp (match_metadata m) ''text'') (filter hasText ms)
         \<and> (\<forall>m. hasText m \<longleftrightarrow> (\<exists>s. s \<noteq> [] \<and> optProp (match_metadata m) ''text'' = JStr s))
         \<and> (\<forall>t \<in> set (map matchText (filter hasText ms)). t \<noteq> [])
         \<and> (length ms \<le> 3 \<longrightarrow> length (map matchText (filter hasText ms)) \<le> 3)"
proof (intro conjI)
  show "queryDocument sv (JStr q) w
           = (Inr (map matchText (filter hasText ms)),
              w\<lparr>calls := calls w @ [EmbedQuery q, Query v 3 True]\<rparr>)"
    using assms by (rule queryDocument_success)
  show "map JStr (map matchText (filter hasText ms))
             = map (\<lambda>m. optProp (match_metadata m) ''text'') (filter hasText ms)"
    by (simp add: hasText_matchText)
  show "\<forall>m. hasText m \<longleftrightarrow> (\<exists>s. s \<noteq> [] \<and> optProp (match_metadata m) ''text'' = JStr s)"
    by (simp add: hasText_iff)
  show "\<forall>t \<in> set (map matchText (filter hasText ms)). t \<noteq> []"
    by (auto simp: hasText_matchText)
  show "length ms \<le> 3 \<longrightarrow> length (map matchText (filter hasText ms)) \<le> 3"
    by (auto intro: le_trans[OF length_filter_le])
qed

text \<open>A store that returns three matches, one of them without metadata.\<close>

theorem retrieve_top3_witness:
  "''What is it?'' \<noteq> []
   \<and> embedQuery matchingServices ''What is it?'' = Inr [1]
   \<and> query matchingServices [1] 3 = Inr exampleMatches
   \<and> length exampleMatches \<le> 3
   \<and> queryDocument matchingServices (JStr ''What is it?'') emptyWorld
       = (Inr [''first'', ''third''],
          \<lparr>calls = [EmbedQuery ''What is it?'', Query [1] 3 True], stored = []\<rparr>)"
proof -
  have h1: "''What is it?'' \<noteq> []" by simp
  have h2: "embedQuery matchingServices ''What is it?'' = Inr [1]"
    by (simp add: matchingServices_def exampleServices_def)
  have h3: "query matchingServices [1] 3 = Inr exampleMatches"
    by (simp add: matchingServices_def exampleServices_def exampleMatches_def)
  have h4: "length exampleMatches \<le> 3" by (simp add: exampleMatches_def)
  have r: "map matchText (filter hasText exampleMatches) = [''first'', ''third'']"
    by (simp add: exampleMatches_def hasText_def matchText_def)
  from retrieve_top3[OF h1 h2 h3, of emptyWorld] h1 h2 h3 h4 r show ?thesis
    by (simp add: emptyWorld_def)
qed

text \<open>
  Claim C4. For every non-empty text, \<^verbatim>\<open>processDocument\<close> either throws or returns at
  least one chunk, and it returns the chunks of the splitter whenever the splitter
  returns one or more. When the splitter returns no chunk, it throws the error "Document
  chunking resulted in zero chunks"; the index handler then answers with the server
  error (status 500, not a client error), and the only call made is the split:
  nothing is embedded and nothing is stored.
\<close>

theorem chunker_at_least_one_chunk:
  assumes "text \<noteq> []"
  shows "(\<forall>chunks w1. processDocument sv (JStr text) w = (Inr chunks, w1) \<longrightarrow> length chunks \<ge> 1)
       \<and> (\<forall>chunks. newSplitter sv splitterOptions = None
                   \<and> splitText sv splitterOptions text = Inr chunks \<and> chunks \<noteq> [] \<longrightarrow>
             processDocument sv (JStr text) w = (Inr chunks, logCall (SplitText splitterOptions text) w))
       \<and> (newSplitter sv splitterOptions = None \<and> splitText sv splitterOptions text = Inr [] \<longrightarrow>
             processDocument sv (JStr text) w
               = (Inl (Error ''Document chunking resulted in zero chunks''),
                  logCall (SplitText splitterOptions text) w)
           \<and> (length text \<le> 500000 \<and> getProp reqBody ''documentText'' = Inr (JStr text) \<longrightarrow>
                postIndexDocument sv reqBody w
                  = (serverError sv ''Failed to index document. Please try again.''
                       (Error ''Document chunking resulted in zero chunks''),
                     w\<lparr>calls := calls w @ [SplitText splitterOptions text]\<rparr>)))
       \<and> status (serverError sv msg e) = 500"
proof (intro conjI allI impI)
  show "status (serverError sv msg e) = 500"
    by (simp add: serverError_def)
next
  fix chunks w1
  assume "processDocument sv (JStr text) w = (Inr chunks, w1)"
  then show "length chunks \<ge> 1"
    by (auto simp: processDocument_def Let_def Suc_le_eq
             split: if_splits option.splits sum.splits)
next
  fix chunks
  assume "newSplitter sv splitterOptions = None
          \<and> splitText sv splitterOptions text = Inr chunks \<and> chunks \<noteq> []"
  with assms show "processDocument sv (JStr text) w = (Inr chunks, logCall (SplitText splitterOptions text) w)"
    by (simp add: processDocument_def Let_def)
next
  assume a: "newSplitter sv splitterOptions = None \<and> splitText sv splitterOptions text = Inr []"
  with assms show p: "processDocument sv (JStr text) w
               = (Inl (Error ''Document chunking resulted in zero chunks''),
                  logCall (SplitText splitterOptions text) w)"
    by (simp add: processDocument_def Let_def)
  assume "length text \<le> 500000 \<and> getProp reqBody ''documentText'' = Inr (JStr text)"
  with assms p show "postIndexDocument sv reqBody w
                  = (serverError sv ''Failed to index document. Please try again.''
                       (Error ''Document chunking resulted in zero chunks''),
                     w\<lparr>calls := calls w @ [SplitText splitterOptions text]\<rparr>)"
    by (simp add: postIndexDocument_def logCall_def)
qed

text \<open>A splitter that returns the text as one chunk, and a splitter that returns none.\<close>

theorem chunker_at_least_one_chunk_witness:
  "''A cat sat on a mat.'' \<noteq> []
   \<and> processDocument exampleServices (JStr ''A cat sat on a mat.'') emptyWorld
       = (Inr [''A cat sat on a mat.''],
          \<lparr>calls = [SplitText \<lparr>chunkSize = 500, chunkOverlap = 100\<rparr> ''A cat sat on a mat.''], stored = []\<rparr>)
   \<and> length [''A cat sat on a mat.''] \<ge> 1
   \<and> splitText noChunkServices splitterOptions ''A cat sat on a mat.'' = Inr []
   \<and> postIndexDocument noChunkServices (JObj [(''documentText'', JStr ''A cat sat on a mat.'')]) emptyWorld
       = (\<lparr>status = 500,
           body = [(''error'', JStr ''Failed to index document. Please try again.''),
                   (''success'', JBool False),
                   (''details'', JStr ''Document chunking resulted in zero chunks''),
                   (''duration'', JNum 5)]\<rparr>,
          \<lparr>calls = [SplitText \<lparr>chunkSize = 500, chunkOverlap = 100\<rparr> ''A cat sat on a mat.''], stored = []\<rparr>)"
proof -
  have h: "''A cat sat on a mat.'' \<noteq> []" by simp
  have n1: "newSplitter exampleServices splitterOptions = None"
    and s1: "splitText exampleServices splitterOptions ''A cat sat on a mat.'' = Inr [''A cat sat on a mat.'']"
    by (simp_all add: exampleServices_def)
  have n2: "newSplitter noChunkServices splitterOptions = None"
    and s2: "splitText noChunkServices splitterOptions ''A cat sat on a mat.'' = Inr []"
    by (simp_all add: noChunkServices_def exampleServices_def)
  have g: "getProp (JObj [(''documentText'', JStr ''A cat sat on a mat.'')]) ''documentText''
             = Inr (JStr ''A cat sat on a mat.'')" by simp
  have l: "length ''A cat sat on a mat.'' \<le> 500000" by simp
  note a = chunker_at_least_one_chunk[OF h, of exampleServices emptyWorld]
  note b = chunker_at_least_one_chunk[OF h, of noChunkServices emptyWorld
             "JObj [(''documentText'', JStr ''A cat sat on a mat.'')]"]
  have p1: "processDocument exampleServices (JStr ''A cat sat on a mat.'') emptyWorld
       = (Inr [''A cat sat on a mat.''], logCall (SplitText splitterOptions ''A cat sat on a mat.'') emptyWorld)"
    using a n1 s1 by blast
  have p2: "postIndexDocument noChunkServices (JObj [(''documentText'', JStr ''A cat sat on a mat.'')]) emptyWorld
       = (serverError noChunkServices ''Failed to index document. Please try again.''
                       (Error ''Document chunking resulted in zero chunks''),
          emptyWorld\<lparr>calls := calls emptyWorld @ [SplitText splitterOptions ''A cat sat on a mat.'']\<rparr>)"
    using b n2 s2 g l by blast
  have e: "serverError noChunkServices ''Failed to index document. Please try again.''
                       (Error ''Document chunking resulted in zero chunks'')
           = \<lparr>status = 500,
           body = [(''error'', JStr ''Failed to index document. Please try again.''),
                   (''success'', JBool False),
                   (''details'', JStr ''Document chunking resulted in zero chunks''),
                   (''duration'', JNum 5)]\<rparr>"
    by (simp add: serverError_def duration_def noChunkServices_def exampleServices_def)
  from h p1 p2 s2 e show ?thesis
    by (simp add: logCall_def emptyWorld_def splitterOptions_def)
qed

lemma storeInPinecone_stored:
  assumes "storeInPinecone sv chunks vectors w = (r, w')"
  shows "\<exists>new rest. stored w' = stored w @ new \<and> mapIndexed (mkRecord sv vectors) chunks = new @ rest"
proof (cases "length chunks = length vectors")
  case False
  with assms have "w' = w" by (simp add: storeInPinecone_def)
  then show ?thesis by simp
next
  case True
  define records where "records = mapIndexed (mkRecord sv vectors) chunks"
  define bs where "bs = batchesOf batchSize records"
  obtain r0 w0 where run: "upsertLoop sv records 0 w = (r0, w0)" by (cases "upsertLoop sv records 0 w")
  with assms True have "w' = w0"
    by (cases r0) (simp_all add: storeInPinecone_def records_def Let_def)
  with run have "submit sv bs w = (r0, w')"
    by (simp add: upsertLoop_submit bs_def)
  from submit_prefix[OF this] obtain k where "stored w' = stored w @ concat (take k bs)" by blast
  moreover have "concat (take k bs) @ concat (drop k bs) = records"
    using concat_batchesOf[of batchSize records] by (simp add: bs_def batchSize_def flip: concat_append)
  ultimately show ?thesis unfolding records_def by metis
qed

text \<open>
  Claim C7. The upsert loop submits the records in consecutive batches of at most 100
  (the batches are not empty and their concatenation is the sequence of records), one
  after the other, each on the store as the batches before it have left it. When the
  upsert of batch \<open>k + 1\<close> throws, the loop ends with that error: the upserts made are
  those of the first \<open>k + 1\<close> batches, and the store has gained the records of the first
  \<open>k\<close> batches and nothing else. Without an error, all batches have been upserted and
  the store has gained all the records.
\<close>

theorem upsert_batches_prefix:
  assumes "upsertLoop sv records 0 w = (r, w')"
  shows "(let bs = batchesOf batchSize records in
            concat bs = records
          \<and> (\<forall>b \<in> set bs. b \<noteq> [] \<and> length b \<le> 100)
          \<and> (\<exists>k\<le>length bs.
                stored w' = stored w @ concat (take k bs)
              \<and> (\<forall>j<k. upsert sv (stored w @ concat (take j bs)) (bs ! j) = None)
              \<and> (case r of
                    Inr u \<Rightarrow> k = length bs \<and> calls w' = calls w @ map Upsert bs
                  | Inl e \<Rightarrow> k < length bs \<and> calls w' = calls w @ map Upsert (take (Suc k) bs)
                             \<and> upsert sv (stored w @ concat (take k bs)) (bs ! k) = Some e)))"
proof -
  have a: "concat (batchesOf batchSize records) = records"
    by (rule concat_batchesOf) (simp add: batchSize_def)
  have b: "\<forall>b \<in> set (batchesOf batchSize records). b \<noteq> [] \<and> length b \<le> 100"
    using batchesOf_bounds[of _ batchSize records] by (simp add: batchSize_def)
  from assms have "submit sv (batchesOf batchSize records) w = (r, w')"
    by (simp add: upsertLoop_submit)
  from a b submit_prefix[OF this] show ?thesis
    unfolding Let_def by (intro conjI)
qed

text \<open>
  A hundred and fifty records given to a store that throws once it holds a hundred: the
  second upsert fails, and the store holds the first hundred records.
\<close>

theorem upsert_batches_prefix_witness:
  "upsertLoop fullStoreServices exampleRecords 0 emptyWorld
     = (Inl (Error ''store unavailable''),
        \<lparr>calls = [Upsert (take 100 exampleRecords), Upsert (drop 100 exampleRecords)],
         stored = take 100 exampleRecords\<rparr>)
   \<and> (let bs = batchesOf batchSize exampleRecords in
            concat bs = exampleRecords
          \<and> (\<forall>b \<in> set bs. b \<noteq> [] \<and> length b \<le> 100)
          \<and> (\<exists>k\<le>length bs.
                take 100 exampleRecords = [] @ concat (take k bs)
              \<and> (\<forall>j<k. upsert fullStoreServices ([] @ concat (take j bs)) (bs ! j) = None)
              \<and> k < length bs
              \<and> [Upsert (take 100 exampleRecords), Upsert (drop 100 exampleRecords)]
                   = [] @ map Upsert (take (Suc k) bs)
              \<and> upsert fullStoreServices ([] @ concat (take k bs)) (bs ! k) = Some (Error ''store unavailable'')))"
proof -
  have len: "length exampleRecords = 150" by (simp add: exampleRecords_def)
  have u0: "upsert fullStoreServices [] (take 100 exampleRecords) = None"
    by (simp add: fullStoreServices_def exampleServices_def)
  have u1: "upsert fullStoreServices (take 100 exampleRecords) (drop 100 exampleRecords)
              = Some (Error ''store unavailable'')"
    by (simp add: fullStoreServices_def exampleServices_def len)
  have second: "upsertLoop fullStoreServices exampleRecords 100
                  \<lparr>calls = [Upsert (take 100 exampleRecords)], stored = take 100 exampleRecords\<rparr>
     = (Inl (Error ''store unavailable''),
        \<lparr>calls = [Upsert (take 100 exampleRecords), Upsert (drop 100 exampleRecords)],
         stored = take 100 exampleRecords\<rparr>)"
    by (simp add: upsertLoop.simps[of _ _ 100] len slice_def batchSize_def u1 Let_def logCall_def)
  have h: "upsertLoop fullStoreServices exampleRecords 0 emptyWorld
     = (Inl (Error ''store unavailable''),
        \<lparr>calls = [Upsert (take 100 exampleRecords), Upsert (drop 100 exampleRecords)],
         stored = take 100 exampleRecords\<rparr>)"
    by (simp add: upsertLoop.simps[of _ _ 0] len slice_def batchSize_def u0 second Let_def logCall_def
          emptyWorld_def)
  from upsert_batches_prefix[OF h] h show ?thesis
    by (simp add: Let_def emptyWorld_def)
qed

text \<open>
  Claim C9. The ids of the records \<^verbatim>\<open>storeInPinecone\<close> builds for the chunks of one call
  are pairwise distinct: the id of chunk \<open>i\<close> starts with \<open>chunk_\<close>, the decimal digits of
  \<open>i\<close> and an underscore, whatever the clock and the random generator return. So the
  records that one call adds to the store have pairwise distinct ids.
\<close>

theorem record_ids_distinct:
  "distinct (map rec_id (mapIndexed (mkRecord sv vectors) chunks))
   \<and> (storeInPinecone sv chunks vectors w = (r, w') \<longrightarrow>
        (\<exists>new. stored w' = stored w @ new \<and> distinct (map rec_id new)))"
proof
  show d: "distinct (map rec_id (mapIndexed (mkRecord sv vectors) chunks))"
    unfolding distinct_conv_nth
    by (auto simp: length_mapIndexed mapIndexed_nth dest: mkRecord_id_inj)
  show "storeInPinecone sv chunks vectors w = (r, w') \<longrightarrow>
        (\<exists>new. stored w' = stored w @ new \<and> distinct (map rec_id new))"
  proof
    assume "storeInPinecone sv chunks vectors w = (r, w')"
    from storeInPinecone_stored[OF this] obtain new rest
      where n: "stored w' = stored w @ new" "mapIndexed (mkRecord sv vectors) chunks = new @ rest"
      by blast
    from d n(2) have "distinct (map rec_id new)" by simp
    with n(1) show "\<exists>new. stored w' = stored w @ new \<and> distinct (map rec_id new)" by blast
  qed
qed

text \<open>Two chunks stored under the example services.\<close>

theorem record_ids_distinct_witness:
  "storeInPinecone exampleServices [''one'', ''two''] [[1], [2]] emptyWorld
     = (Inr 2,
        \<lparr>calls = [Upsert (mapIndexed (mkRecord exampleServices [[1], [2]]) [''one'', ''two''])],
         stored = mapIndexed (mkRecord exampleServices [[1], [2]]) [''one'', ''two'']\<rparr>)
   \<and> map rec_id (mapIndexed (mkRecord exampleServices [[1], [2]]) [''one'', ''two''])
       = [''chunk_0_1700000000000_k3j9x0q1z'', ''chunk_1_1700000000000_k3j9x0q1z'']
   \<and> distinct (map rec_id (mapIndexed (mkRecord exampleServices [[1], [2]]) [''one'', ''two'']))
   \<and> (\<exists>new. stored \<lparr>calls = [Upsert (mapIndexed (mkRecord exampleServices [[1], [2]]) [''one'', ''two''])],
                     stored = mapIndexed (mkRecord exampleServices [[1], [2]]) [''one'', ''two'']\<rparr>
               = stored emptyWorld @ new \<and> distinct (map rec_id new))"
proof -
  define recs where "recs = mapIndexed (mkRecord exampleServices [[1], [2]]) [''one'', ''two'']"
  have len: "length recs = 2" by (simp add: recs_def length_mapIndexed)
  have u: "upsert exampleServices [] recs = None" by (simp add: exampleServices_def)
  have loop: "upsertLoop exampleServices recs 0 emptyWorld
                = (Inr (), \<lparr>calls = [Upsert recs], stored = recs\<rparr>)"
    by (simp add: upsertLoop.simps[of _ _ 0] upsertLoop.simps[of _ _ 100] len slice_def batchSize_def u
          Let_def logCall_def emptyWorld_def)
  have h: "storeInPinecone exampleServices [''one'', ''two''] [[1], [2]] emptyWorld
     = (Inr 2,
        \<lparr>calls = [Upsert (mapIndexed (mkRecord exampleServices [[1], [2]]) [''one'', ''two''])],
         stored = mapIndexed (mkRecord exampleServices [[1], [2]]) [''one'', ''two'']\<rparr>)"
    using loop len by (simp add: storeInPinecone_def Let_def flip: recs_def)
  have i: "map rec_id (mapIndexed (mkRecord exampleServices [[1], [2]]) [''one'', ''two''])
       = [''chunk_0_1700000000000_k3j9x0q1z'', ''chunk_1_1700000000000_k3j9x0q1z'']"
    by (simp add: mapIndexed_def mkRecord_def exampleServices_def numToString_def natToString.simps
          digitChar_def)
  from record_ids_distinct[of exampleServices "[[1], [2]]" "[''one'', ''two'']" emptyWorld]
       h i show ?thesis by blast
qed



end
